theory Spec2Isabelle
  imports Complex_Main "HOL-Library.List_Lexorder" "HOL-Library.Char_ord"
begin

section \<open>Values held by a data frame\<close>

text \<open>
  A float64 value: a finite number, given by the rational it denotes, one of the two
  infinities (a CSV cell \<^verbatim>\<open>inf\<close> / \<^verbatim>\<open>-inf\<close>), or NaN, which is also the missing
  value an empty cell parses to. These are the values a chart plots.
\<close>

datatype fval = Fin rat | PInf | NInf | NaN

text \<open>The numeric order on the float values that are not NaN: \<open>-inf < finite < inf\<close>.\<close>

fun fless :: "fval \<Rightarrow> fval \<Rightarrow> bool" where
  "fless NaN _ = False"
| "fless _ NaN = False"
| "fless NInf NInf = False"
| "fless NInf _ = True"
| "fless _ NInf = False"
| "fless PInf _ = False"
| "fless _ PInf = True"
| "fless (Fin a) (Fin b) = (a < b)"

text \<open>
  A cell of a parsed table: an integer of an int64 column, a value of a float64 column, or
  the text of an object column. A column holds cells of one kind, a text column also the
  missing value \<open>Float64 NaN\<close>; an int64 column has no missing value.
\<close>

datatype cell = Int64 int | Float64 fval | Text string

text \<open>
  The order in which a grouped result lists its keys: integers and floats numerically, text
  as Python compares strings. The order between the kinds is never consulted on a column of
  one kind.
\<close>

fun cless :: "cell \<Rightarrow> cell \<Rightarrow> bool" where
  "cless (Int64 a) (Int64 b) = (a < b)"
| "cless (Float64 a) (Float64 b) = fless a b"
| "cless (Text a) (Text b) = (a < b)"
| "cless (Int64 _) (Float64 _) = True"
| "cless (Int64 _) (Text _) = True"
| "cless (Float64 _) (Text _) = True"
| "cless (Float64 _) (Int64 _) = False"
| "cless (Text _) (Int64 _) = False"
| "cless (Text _) (Float64 _) = False"

section \<open>Exceptions\<close>

datatype value_error =
    MustContainList
  | NoConfigData string
  | FailedToDecode string
  | CannotConvertNaN

datatype exn =
    FileNotFoundError string
  | ValueError value_error
  | OverflowError

text \<open>
  Python's \<^verbatim>\<open>int(y)\<close> on a number: truncation toward zero on a finite value (an
  integer is left as it is), \<^verbatim>\<open>OverflowError\<close> on an infinity,
  \<^verbatim>\<open>ValueError\<close> on NaN.
\<close>

definition trunc :: "rat \<Rightarrow> int" where
  "trunc r = (if 0 \<le> r then \<lfloor>r\<rfloor> else \<lceil>r\<rceil>)"

fun py_int :: "fval \<Rightarrow> exn + int" where
  "py_int (Fin r) = Inr (trunc r)"
| "py_int PInf = Inl OverflowError"
| "py_int NInf = Inl OverflowError"
| "py_int NaN = Inl (ValueError CannotConvertNaN)"

section \<open>Tables\<close>

text \<open>
  A \<^verbatim>\<open>DataFrame\<close>: its column names in order, its rows, and the two float
  summations of the engine behind it. A row gives the cell of every column; the code reads
  a row only at names it has found in \<open>df_columns\<close>.

  The engine's sums of float64 values (the grouped sum over the cells of a group in row
  order, the row-wise sum over the cells of a row in column order) are not defined by the
  model, which takes them as they come with the table: float64 rounding, the order of the
  additions and the overflow to infinity are the engine's. What the engine does with the
  text of an object column when it is asked to sum it is not modelled either.
\<close>

type_synonym row = "string \<Rightarrow> cell"

record table =
  df_columns :: "string list"
  df_rows :: "row list"
  df_group_sum :: "cell list \<Rightarrow> fval"
  df_row_sum :: "cell list \<Rightarrow> fval"

text \<open>
  \<^verbatim>\<open>df[c] = ...\<close>: the column is replaced where it stands, or appended when the
  table has no column of that name.
\<close>

definition set_column :: "string \<Rightarrow> (row \<Rightarrow> cell) \<Rightarrow> table \<Rightarrow> table" where
  "set_column c f df =
     df\<lparr>df_columns := (if c \<in> set (df_columns df) then df_columns df else df_columns df @ [c]),
        df_rows := map (\<lambda>r. r(c := f r)) (df_rows df)\<rparr>"

subsection \<open>Sums\<close>

text \<open>
  A column is an int64 column when all its cells are integers; \<open>int_value\<close> is the integer
  of such a cell.
\<close>

fun is_int64 :: "cell \<Rightarrow> bool" where
  "is_int64 (Int64 i) = True"
| "is_int64 (Float64 v) = False"
| "is_int64 (Text s) = False"

fun is_float64 :: "cell \<Rightarrow> bool" where
  "is_float64 (Int64 i) = False"
| "is_float64 (Float64 v) = True"
| "is_float64 (Text s) = False"

fun int_value :: "cell \<Rightarrow> int" where
  "int_value (Int64 i) = i"
| "int_value (Float64 v) = 0"
| "int_value (Text s) = 0"

definition int64_column :: "table \<Rightarrow> string \<Rightarrow> bool" where
  "int64_column df c = list_all (\<lambda>r. is_int64 (r c)) (df_rows df)"

text \<open>
  int64 arithmetic wraps around without a sign of it: a result is reduced modulo \<open>2^64\<close>
  into the range from \<open>-2^63\<close> to \<open>2^63 - 1\<close>. The sum of int64 cells adds them one by one
  in that arithmetic.
\<close>

definition wrap64 :: "int \<Rightarrow> int" where
  "wrap64 i = (i + 2 ^ 63) mod 2 ^ 64 - 2 ^ 63"

definition int64_sum :: "cell list \<Rightarrow> int" where
  "int64_sum cs = foldl (\<lambda>s c. wrap64 (s + int_value c)) 0 cs"

text \<open>
  The sum of the cells of a float64 column with \<^verbatim>\<open>skipna=True\<close> and
  \<^verbatim>\<open>min_count=0\<close>, the defaults of both \<^verbatim>\<open>DataFrame.sum\<close> and the grouped
  sum: \<open>0.0\<close> when every cell is missing, the value itself when one cell is not (nothing
  is rounded then), and what the engine computes in every other case.
\<close>

definition float64_sum :: "(cell list \<Rightarrow> fval) \<Rightarrow> cell list \<Rightarrow> fval" where
  "float64_sum engine cs =
     (if list_all is_float64 cs then
        (case filter (\<lambda>c. c \<noteq> Float64 NaN) cs of
           [] \<Rightarrow> Fin 0
         | [c] \<Rightarrow> (case c of Float64 v \<Rightarrow> v | _ \<Rightarrow> engine cs)
         | _ \<Rightarrow> engine cs)
      else engine cs)"

text \<open>
  \<^verbatim>\<open>df[available_cols].sum(axis=1)\<close>: per row, the sum of the selected columns, each
  taken as often as the selection lists it: an int64 sum when every selected column is an
  int64 column, a float64 sum otherwise.
\<close>

definition sum_axis1 :: "table \<Rightarrow> string list \<Rightarrow> row \<Rightarrow> cell" where
  "sum_axis1 df cols r =
     (if list_all (int64_column df) cols then Int64 (int64_sum (map r cols))
      else Float64 (float64_sum (df_row_sum df) (map r cols)))"

subsection \<open>Grouped sum\<close>

text \<open>
  \<^verbatim>\<open>df.groupby(g, as_index=False)[y].sum()\<close>, as pandas computes it: one pass over the
  rows, in which a row whose key is missing is dropped (\<^verbatim>\<open>dropna=True\<close>) and every
  other row adds its cell of \<open>y\<close> to the group of its key; the groups come out in ascending
  key order (\<^verbatim>\<open>sort=True\<close>). \<open>accumulate\<close> keeps the groups in key order while it runs,
  each with the cells it has received, in row order.
\<close>

fun accumulate :: "cell \<Rightarrow> cell \<Rightarrow> (cell \<times> cell list) list \<Rightarrow> (cell \<times> cell list) list" where
  "accumulate k c [] = [(k, [c])]"
| "accumulate k c ((k', cs) # gs) =
     (if k = k' then (k', cs @ [c]) # gs
      else if cless k k' then (k, [c]) # (k', cs) # gs
      else (k', cs) # accumulate k c gs)"

fun group_rows ::
  "string \<Rightarrow> string \<Rightarrow> row list \<Rightarrow> (cell \<times> cell list) list \<Rightarrow> (cell \<times> cell list) list" where
  "group_rows g y [] gs = gs"
| "group_rows g y (r # rs) gs =
     (if r g = Float64 NaN then group_rows g y rs gs
      else group_rows g y rs (accumulate (r g) (r y) gs))"

text \<open>
  The total of one group, as the cell of the result column and as the number a chart plots:
  the int64 sum when \<open>y\<close> is an int64 column, the float64 sum otherwise.
\<close>

definition group_total :: "table \<Rightarrow> string \<Rightarrow> cell list \<Rightarrow> cell \<times> fval" where
  "group_total df y cs =
     (if int64_column df y then (Int64 (int64_sum cs), Fin (of_int (int64_sum cs)))
      else (Float64 (float64_sum (df_group_sum df) cs),
            float64_sum (df_group_sum df) cs))"

text \<open>
  The series the code reads off the grouped frame, \<^verbatim>\<open>(df[x_col], df[y_col])\<close>: for a
  group column other than \<open>y\<close>, the key and the total of each group. Grouped by \<open>y\<close> itself,
  the frame has the one column \<open>y\<close>, which holds the totals: the code then reads the total
  in both places.
\<close>

definition groupby_sum :: "table \<Rightarrow> string \<Rightarrow> string \<Rightarrow> (cell \<times> fval) list" where
  "groupby_sum df g y =
     map (\<lambda>(k, cs). (if g = y then fst (group_total df y cs) else k,
                      snd (group_total df y cs)))
       (group_rows g y (df_rows df) [])"


section \<open>Job descriptors, paths, the file system\<close>

text \<open>
  A configuration entry, read at the keys \<^verbatim>\<open>directory\<close>, \<^verbatim>\<open>columns\<close>,
  \<^verbatim>\<open>groupby\<close>, \<^verbatim>\<open>chart_type\<close> and \<^verbatim>\<open>chart_label\<close>; \<open>None\<close> is an absent key
  (what \<^verbatim>\<open>config.get\<close> answers with its default). \<^verbatim>\<open>columns\<close> and
  \<^verbatim>\<open>groupby\<close> hold a string or a list of strings.
\<close>

datatype names = Single string | Multiple "string list"

record descriptor =
  directory :: "string option"
  columns :: "names option"
  groupby :: "names option"
  chart_type :: "string option"
  chart_label :: "string option"

text \<open>Python's \<^verbatim>\<open>not v\<close> on what \<^verbatim>\<open>config.get\<close> returned.\<close>

fun not_str :: "string option \<Rightarrow> bool" where
  "not_str None = True"
| "not_str (Some s) = (s = [])"

fun not_names :: "names option \<Rightarrow> bool" where
  "not_names None = True"
| "not_names (Some (Single s)) = (s = [])"
| "not_names (Some (Multiple cs)) = (cs = [])"

text \<open>
  A \<^verbatim>\<open>pathlib.Path\<close>: its directory and its final component. \<^verbatim>\<open>dir / name\<close> is
  the pair of the two; separators inside a name are not interpreted.
\<close>

record path =
  parent :: string
  name :: string

text \<open>
  \<^verbatim>\<open>Path.stem\<close>: the name up to its last dot, when that dot is neither the first nor
  the last character of the name; the whole name otherwise.
\<close>

definition stem :: "string \<Rightarrow> string" where
  "stem nm =
     (let n = length (takeWhile (\<lambda>c. c \<noteq> CHR ''.'') (rev nm)) in
      if n < length nm \<and> 0 < length nm - 1 - n \<and> 0 < n
      then take (length nm - 1 - n) nm else nm)"

text \<open>
  The root of a parsed configuration file, and what a configuration path leads to: no
  file, a file \<^verbatim>\<open>json.load\<close> cannot decode, or a parsed file.
\<close>

datatype json_root =
    JList "descriptor list"
  | JDict descriptor
  | JOther

datatype config_source =
    Missing
  | Undecodable
  | Parsed json_root

text \<open>
  The file system the run reads, which the run does not change: the configuration files,
  what a glob pattern expands to, which of the paths are
  directories, what \<^verbatim>\<open>pd.read_csv\<close> parses a file to (\<open>None\<close>: it raises), and the
  paths at which \<^verbatim>\<open>savefig\<close> fails.
\<close>

record env =
  config_file :: "string \<Rightarrow> config_source"
  glob :: "string \<Rightarrow> path list"
  is_dir :: "path \<Rightarrow> bool"
  read_csv :: "path \<Rightarrow> table option"
  save_fails :: "path \<Rightarrow> bool"

section \<open>The pipeline's state\<close>

text \<open>The log lines of the module, by the statement that writes them.\<close>

datatype level = INFO | WARNING | ERROR

datatype event =
    Loaded nat string
  | NoConfigurationLoaded
  | ProcessingConfigSet nat
  | MissingDirectory
  | FoundFiles nat string
  | FailedToProcess path exn
  | ProcessingFile string
  | FailedToReadCsv path
  | MissingRequiredKeys string
  | NoneOfColumnsFound string "string list"
  | ColumnNotFound string string
  | GroupColumnNotFound string string
  | UnknownChartType string
  | GeneratedChart path
  | FailedToSaveChart path

text \<open>
  What a saved figure shows: the plotted points, the text placed at each of them, and the
  decorations.
\<close>

record chart =
  kind :: string
  points :: "(cell \<times> fval) list"
  data_labels :: "(cell \<times> fval \<times> int) list"
  title :: string
  xlabel :: string
  ylabel :: string
  legend :: string

text \<open>
  The state a run changes: the \<^verbatim>\<open>config_data\<close> of the \<^verbatim>\<open>Visualizer\<close>, the
  number of figures pyplot holds open, the image files written, and the log.
\<close>

record state =
  config_data :: "descriptor list"
  open_figures :: nat
  artifacts :: "path \<rightharpoonup> chart"
  logged :: "(level \<times> event) list"

definition init :: state where
  "init = \<lparr>config_data = [], open_figures = 0, artifacts = Map.empty, logged = []\<rparr>"

definition logger :: "level \<Rightarrow> event \<Rightarrow> state \<Rightarrow> state" where
  "logger lvl ev s = s\<lparr>logged := logged s @ [(lvl, ev)]\<rparr>"

text \<open>
  A call returns the state it leaves and, when it raises, the exception: \<open>(None, s)\<close> is a
  normal return, \<open>(Some e, s)\<close> is \<open>e\<close> raised out of the call.
\<close>

type_synonym outcome = "exn option \<times> state"

section \<open>\<^verbatim>\<open>load_config\<close>\<close>

fun as_list :: "json_root \<Rightarrow> exn + descriptor list" where
  "as_list (JList ds) = Inr ds"
| "as_list (JDict d) = Inr [d]"
| "as_list JOther = Inl (ValueError MustContainList)"

definition load_config :: "env \<Rightarrow> string \<Rightarrow> state \<Rightarrow> outcome" where
  "load_config fs config_path s =
     (case config_file fs config_path of
        Missing \<Rightarrow> (Some (FileNotFoundError config_path), s)
      | Undecodable \<Rightarrow> (Some (ValueError (FailedToDecode config_path)), s)
      | Parsed js \<Rightarrow>
          (case as_list js of
             Inl e \<Rightarrow> (Some e, s)
           | Inr config \<Rightarrow>
               if config = [] then (Some (ValueError (NoConfigData config_path)), s)
               else (None, logger INFO (Loaded (length config) config_path)
                             (s\<lparr>config_data := config\<rparr>))))"

section \<open>\<^verbatim>\<open>_generate_chart\<close>\<close>

text \<open>
  The data labels of both chart kinds: for each point in turn, the text
  \<^verbatim>\<open>f'{int(y)}'\<close> at the point (for a bar, at the middle of its top). The first
  value \<^verbatim>\<open>int\<close> rejects raises out of the loop.
\<close>

fun add_data_labels :: "(cell \<times> fval) list \<Rightarrow> exn + (cell \<times> fval \<times> int) list" where
  "add_data_labels [] = Inr []"
| "add_data_labels ((x, y) # ps) =
     (case py_int y of
        Inl e \<Rightarrow> Inl e
      | Inr n \<Rightarrow>
          (case add_data_labels ps of
             Inl e \<Rightarrow> Inl e
           | Inr ls \<Rightarrow> Inr ((x, y, n) # ls)))"

definition close_fig :: "state \<Rightarrow> state" where
  "close_fig s = s\<lparr>open_figures := open_figures s - 1\<rparr>"

text \<open>
  The figure after \<^verbatim>\<open># Formatting\<close>: the plotted series with its data labels, the
  title, the axis labels and the legend entry (the label given to \<^verbatim>\<open>plot\<close> /
  \<^verbatim>\<open>bar\<close>). The grid and the integer tick locator, whose failure the code ignores,
  change nothing of this.
\<close>

definition figure ::
  "(cell \<times> fval) list \<Rightarrow> (cell \<times> fval \<times> int) list \<Rightarrow> string \<Rightarrow> string \<Rightarrow> string \<Rightarrow>
   string \<Rightarrow> chart" where
  "figure df labels x_col ctype base_filename y_label =
     \<lparr>kind = ctype, points = df, data_labels = labels,
      title = base_filename @ '' grouped by '' @ x_col,
      xlabel = x_col, ylabel = y_label, legend = y_label\<rparr>"

text \<open>\<^verbatim>\<open>output_dir / f"{base_filename}_{x_col}_{chart_type}.png"\<close>.\<close>

definition chart_path :: "string \<Rightarrow> string \<Rightarrow> string \<Rightarrow> string \<Rightarrow> path" where
  "chart_path output_dir base_filename x_col ctype =
     \<lparr>parent = output_dir, name = base_filename @ ''_'' @ x_col @ ''_'' @ ctype @ ''.png''\<rparr>"

text \<open>
  The save inside \<^verbatim>\<open>try ... except ... finally\<close>: a failure of
  \<^verbatim>\<open>savefig\<close> is logged, and the figure is closed either way.
\<close>

definition save_chart :: "env \<Rightarrow> chart \<Rightarrow> path \<Rightarrow> state \<Rightarrow> outcome" where
  "save_chart fs fig output_path s =
     (if save_fails fs output_path
      then (None, close_fig (logger ERROR (FailedToSaveChart output_path) s))
      else (None, close_fig (logger INFO (GeneratedChart output_path)
                              (s\<lparr>artifacts := (artifacts s)(output_path \<mapsto> fig)\<rparr>))))"

text \<open>
  \<^verbatim>\<open>plt.subplots\<close> opens a figure. A supported chart kind plots the series and
  writes the data labels, then decorates and saves; any other kind logs an error, closes
  the figure and returns. Nothing closes the figure when the data labels raise.
\<close>

definition generate_chart ::
  "env \<Rightarrow> (cell \<times> fval) list \<Rightarrow> string \<Rightarrow> string \<Rightarrow> string \<Rightarrow> string \<Rightarrow> string \<Rightarrow>
   state \<Rightarrow> outcome" where
  "generate_chart fs df x_col ctype output_dir base_filename y_label s =
     (let s1 = s\<lparr>open_figures := Suc (open_figures s)\<rparr> in
      if ctype = ''line'' then
        (case add_data_labels df of
           Inl e \<Rightarrow> (Some e, s1)
         | Inr labels \<Rightarrow>
             save_chart fs (figure df labels x_col ctype base_filename y_label)
               (chart_path output_dir base_filename x_col ctype) s1)
      else if ctype = ''bar'' then
        (case add_data_labels df of
           Inl e \<Rightarrow> (Some e, s1)
         | Inr labels \<Rightarrow>
             save_chart fs (figure df labels x_col ctype base_filename y_label)
               (chart_path output_dir base_filename x_col ctype) s1)
      else (None, close_fig (logger ERROR (UnknownChartType ctype) s1)))"

section \<open>\<^verbatim>\<open>_process_single_file\<close>\<close>

definition plot_col_name :: string where
  "plot_col_name = ''calculated_value''"

text \<open>\<^verbatim>\<open>sep.join(xs)\<close>.\<close>

fun join :: "string \<Rightarrow> string list \<Rightarrow> string" where
  "join sep [] = []"
| "join sep [x] = x"
| "join sep (x # y # ys) = x @ sep @ join sep (y # ys)"

text \<open>\<^verbatim>\<open>config.get(self.KEY_CHART_LABEL, default)\<close>.\<close>

definition get_chart_label :: "descriptor \<Rightarrow> string \<Rightarrow> string" where
  "get_chart_label config dflt = (case chart_label config of None \<Rightarrow> dflt | Some l \<Rightarrow> l)"

text \<open>
  Step 1, \<^verbatim>\<open># 1. Prepare Data (Handle Columns)\<close>: the warning that ends the file's
  processing, or the table with the synthetic column and the label of the y axis.
\<close>

definition prepare_columns ::
  "descriptor \<Rightarrow> names \<Rightarrow> string \<Rightarrow> table \<Rightarrow> (level \<times> event) + (table \<times> string)" where
  "prepare_columns config target_cols file_name df =
     (case target_cols of
        Multiple cs \<Rightarrow>
          (let available_cols = filter (\<lambda>c. c \<in> set (df_columns df)) cs in
           if available_cols = [] then Inl (WARNING, NoneOfColumnsFound file_name cs)
           else Inr (set_column plot_col_name (sum_axis1 df available_cols) df,
                     get_chart_label config (join '' + '' available_cols)))
      | Single c \<Rightarrow>
          if c \<notin> set (df_columns df) then Inl (WARNING, ColumnNotFound file_name c)
          else Inr (set_column plot_col_name (\<lambda>r. r c) df, get_chart_label config c))"

text \<open>
  The names a \<^verbatim>\<open>columns\<close> or \<^verbatim>\<open>groupby\<close> value holds. Step 2 makes this list
  of the group columns: a single name becomes a list of one.
\<close>

fun name_list :: "names \<Rightarrow> string list" where
  "name_list (Single g) = [g]"
| "name_list (Multiple gs) = gs"

text \<open>
  The loop over the group columns. Nothing in it catches: an exception of
  \<^verbatim>\<open>_generate_chart\<close> leaves the loop and the function.
\<close>

fun group_loop ::
  "env \<Rightarrow> table \<Rightarrow> string \<Rightarrow> path \<Rightarrow> string \<Rightarrow> string list \<Rightarrow> state \<Rightarrow> outcome" where
  "group_loop fs df ctype file_path y_label [] s = (None, s)"
| "group_loop fs df ctype file_path y_label (group_col # rest) s =
     (if group_col \<notin> set (df_columns df)
      then group_loop fs df ctype file_path y_label rest
             (logger WARNING (GroupColumnNotFound group_col (name file_path)) s)
      else
        (case generate_chart fs (groupby_sum df group_col plot_col_name) group_col ctype
                (parent file_path) (stem (name file_path)) y_label s of
           (Some e, s') \<Rightarrow> (Some e, s')
         | (None, s') \<Rightarrow> group_loop fs df ctype file_path y_label rest s'))"

definition process_single_file :: "env \<Rightarrow> path \<Rightarrow> descriptor \<Rightarrow> state \<Rightarrow> outcome" where
  "process_single_file fs file_path config s =
     (let s0 = logger INFO (ProcessingFile (name file_path)) s in
      case read_csv fs file_path of
        None \<Rightarrow> (None, logger ERROR (FailedToReadCsv file_path) s0)
      | Some df \<Rightarrow>
          (case (columns config, groupby config, chart_type config) of
             (Some target_cols, Some groupby_input, Some ctype) \<Rightarrow>
               if not_names (Some target_cols) \<or> not_names (Some groupby_input)
                  \<or> not_str (Some ctype)
               then (None, logger WARNING (MissingRequiredKeys (name file_path)) s0)
               else
                 (case prepare_columns config target_cols (name file_path) df of
                    Inl (lvl, ev) \<Rightarrow> (None, logger lvl ev s0)
                  | Inr (df', y_label) \<Rightarrow>
                      group_loop fs df' ctype file_path y_label (name_list groupby_input) s0)
           | _ \<Rightarrow> (None, logger WARNING (MissingRequiredKeys (name file_path)) s0)))"

section \<open>\<^verbatim>\<open>_process_config_entry\<close> and \<^verbatim>\<open>process_all\<close>\<close>

text \<open>
  The loop over the files a pattern matched: directories are passed over, and whatever
  \<^verbatim>\<open>_process_single_file\<close> raises is caught and logged here.
\<close>

fun files_loop :: "env \<Rightarrow> descriptor \<Rightarrow> path list \<Rightarrow> state \<Rightarrow> state" where
  "files_loop fs config [] s = s"
| "files_loop fs config (file_path # rest) s =
     (if is_dir fs file_path then files_loop fs config rest s
      else
        (case process_single_file fs file_path config s of
           (None, s') \<Rightarrow> files_loop fs config rest s'
         | (Some e, s') \<Rightarrow>
             files_loop fs config rest (logger ERROR (FailedToProcess file_path e) s')))"




section \<open>Example inputs\<close>

text \<open>
  The tables of the module's two end-to-end tests (integer years and amounts, a text column
  \<open>Category\<close>), a table with a fractional amount, a table in which grouping by \<open>A\<close> meets
  an infinite amount while grouping by \<open>B\<close> does not (the row holding it has no \<open>B\<close>), and
  a table whose amounts add up past the int64 range; a directory \<open>data\<close> holding them as
  CSV files. No group and no row of these tables holds two float values to add, so the
  engine's float sums are never consulted on them; they are set to answer NaN.
\<close>

definition row_of :: "(string \<times> cell) list \<Rightarrow> row" where
  "row_of cells = (\<lambda>c. case map_of cells c of None \<Rightarrow> Float64 NaN | Some v \<Rightarrow> v)"

definition frame :: "string list \<Rightarrow> row list \<Rightarrow> table" where
  "frame cols rs =
     \<lparr>df_columns = cols, df_rows = rs, df_group_sum = (\<lambda>cs. NaN), df_row_sum = (\<lambda>cs. NaN)\<rparr>"

definition financials :: table where
  "financials =
     frame [''Year'', ''Category'', ''Amount'']
       [row_of [(''Year'', Int64 2023), (''Category'', Text ''A''), (''Amount'', Int64 100)],
        row_of [(''Year'', Int64 2023), (''Category'', Text ''B''), (''Amount'', Int64 200)],
        row_of [(''Year'', Int64 2024), (''Category'', Text ''A''), (''Amount'', Int64 150)],
        row_of [(''Year'', Int64 2024), (''Category'', Text ''B''), (''Amount'', Int64 250)]]"

definition multi_col :: table where
  "multi_col =
     frame [''Year'', ''Salary'', ''Bonus'']
       [row_of [(''Year'', Int64 2023), (''Salary'', Int64 50000), (''Bonus'', Int64 5000)],
        row_of [(''Year'', Int64 2024), (''Salary'', Int64 52000), (''Bonus'', Int64 6000)]]"

definition fractional :: table where
  "fractional =
     frame [''Year'', ''Amount'']
       [row_of [(''Year'', Int64 2024), (''Amount'', Float64 (Fin (11 / 4)))]]"

definition unbounded :: table where
  "unbounded =
     frame [''A'', ''B'', ''Amount'']
       [row_of [(''A'', Int64 1), (''Amount'', Float64 PInf)],
        row_of [(''A'', Int64 2), (''B'', Float64 (Fin 5)), (''Amount'', Float64 (Fin 10))]]"

definition brimful :: table where
  "brimful =
     frame [''Year'', ''Salary'', ''Bonus'']
       [row_of [(''Year'', Int64 2023), (''Salary'', Int64 9223372036854775807),
                (''Bonus'', Int64 1)],
        row_of [(''Year'', Int64 2023), (''Salary'', Int64 1), (''Bonus'', Int64 7)]]"

definition csv :: "string \<Rightarrow> path" where
  "csv nm = \<lparr>parent = ''data'', name = nm\<rparr>"

definition job :: "names \<Rightarrow> names \<Rightarrow> string \<Rightarrow> string option \<Rightarrow> descriptor" where
  "job cols grp ctype lbl =
     \<lparr>directory = Some ''data/*.csv'', columns = Some cols, groupby = Some grp,
      chart_type = Some ctype, chart_label = lbl\<rparr>"

definition disk :: env where
  "disk =
     \<lparr>config_file = (\<lambda>p.
         if p = ''config.json''
         then Parsed (JDict (job (Single ''Amount'') (Single ''Year'') ''bar'' (Some ''Total Amount'')))
         else if p = ''empty.json'' then Parsed (JList [])
         else if p = ''broken.json'' then Undecodable
         else Missing),
      glob = (\<lambda>pat.
         if pat = ''data/*.csv''
         then [csv ''test_financials.csv'', csv ''multi_col.csv'', csv ''fractional.csv'',
               csv ''unbounded.csv'']
         else []),
      is_dir = (\<lambda>p. False),
      read_csv = (\<lambda>p.
         if p = csv ''test_financials.csv'' then Some financials
         else if p = csv ''multi_col.csv'' then Some multi_col
         else if p = csv ''fractional.csv'' then Some fractional
         else if p = csv ''unbounded.csv'' then Some unbounded
         else if p = csv ''brimful.csv'' then Some brimful
         else None),
      save_fails = (\<lambda>p. False)\<rparr>"

section \<open>Facts about one render call\<close>

lemmas example_defs = disk_def csv_def job_def financials_def multi_col_def fractional_def
  unbounded_def brimful_def row_of_def frame_def

lemmas sum_defs = groupby_sum_def group_total_def int64_column_def int64_sum_def wrap64_def
  float64_sum_def sum_axis1_def

lemma close_after_open:
  "close_fig (logger lvl ev (s\<lparr>open_figures := Suc (open_figures s)\<rparr>)) = logger lvl ev s"
  by (simp add: close_fig_def logger_def)

lemma close_after_open_saved:
  "close_fig (logger lvl ev (s\<lparr>open_figures := Suc (open_figures s), artifacts := a\<rparr>))
     = logger lvl ev (s\<lparr>artifacts := a\<rparr>)"
  by (simp add: close_fig_def logger_def)

lemma generate_chart_unknown:
  assumes "ctype \<noteq> ''line''" and "ctype \<noteq> ''bar''"
  shows "generate_chart fs df x_col ctype dir base y_label s
           = (None, logger ERROR (UnknownChartType ctype) s)"
  using assms by (simp add: generate_chart_def Let_def close_after_open)

lemma generate_chart_raises:
  assumes "ctype = ''line'' \<or> ctype = ''bar''" and "add_data_labels df = Inl e"
  shows "generate_chart fs df x_col ctype dir base y_label s
           = (Some e, s\<lparr>open_figures := Suc (open_figures s)\<rparr>)"
  using assms by (auto simp: generate_chart_def Let_def)

lemma generate_chart_save_fails:
  assumes "ctype = ''line'' \<or> ctype = ''bar''" and "add_data_labels df = Inr ls"
    and "save_fails fs (chart_path dir base x_col ctype)"
  shows "generate_chart fs df x_col ctype dir base y_label s
           = (None, logger ERROR (FailedToSaveChart (chart_path dir base x_col ctype)) s)"
  using assms by (auto simp: generate_chart_def save_chart_def Let_def close_after_open)

lemma generate_chart_saved:
  assumes "ctype = ''line'' \<or> ctype = ''bar''" and "add_data_labels df = Inr ls"
    and "\<not> save_fails fs (chart_path dir base x_col ctype)"
  shows "generate_chart fs df x_col ctype dir base y_label s
           = (None, logger INFO (GeneratedChart (chart_path dir base x_col ctype))
                      (s\<lparr>artifacts := (artifacts s)(chart_path dir base x_col ctype \<mapsto>
                                          figure df ls x_col ctype base y_label)\<rparr>))"
  using assms by (auto simp: generate_chart_def save_chart_def Let_def close_after_open_saved)

lemma logger_fields [simp]:
  "artifacts (logger lvl ev s) = artifacts s"
  "config_data (logger lvl ev s) = config_data s"
  "open_figures (logger lvl ev s) = open_figures s"
  "logged (logger lvl ev s) = logged s @ [(lvl, ev)]"
  by (simp_all add: logger_def)

lemma generate_chart_new_artifact:
  assumes "artifacts (snd (generate_chart fs df x_col ctype dir base y_label s)) p = Some c"
    and "artifacts s p \<noteq> Some c"
  shows "p = chart_path dir base x_col ctype \<and>
         (\<exists>ls. add_data_labels df = Inr ls \<and> c = figure df ls x_col ctype base y_label)"
proof (cases "ctype = ''line'' \<or> ctype = ''bar''")
  case False
  then show ?thesis using assms by (simp add: generate_chart_unknown)
next
  case kind: True
  show ?thesis
  proof (cases "add_data_labels df")
    case (Inl e)
    then show ?thesis using assms kind by (simp add: generate_chart_raises)
  next
    case (Inr ls)
    show ?thesis
    proof (cases "save_fails fs (chart_path dir base x_col ctype)")
      case True
      then show ?thesis using assms kind Inr by (simp add: generate_chart_save_fails)
    next
      case False
      then show ?thesis using assms kind Inr
        by (simp add: generate_chart_saved split: if_splits)
    qed
  qed
qed

lemma group_loop_new_artifact:
  assumes "artifacts (snd (group_loop fs df ctype fp y_label gs s)) p = Some c"
    and "artifacts s p \<noteq> Some c"
  shows "\<exists>g ls. g \<in> set gs \<and> g \<in> set (df_columns df) \<and>
           p = chart_path (parent fp) (stem (name fp)) g ctype \<and>
           add_data_labels (groupby_sum df g plot_col_name) = Inr ls \<and>
           c = figure (groupby_sum df g plot_col_name) ls g ctype (stem (name fp)) y_label"
  using assms
proof (induction gs arbitrary: s)
  case Nil
  then show ?case by simp
next
  case (Cons g gs)
  show ?case
  proof (cases "g \<in> set (df_columns df)")
    case False
    with Cons.prems have "artifacts (snd (group_loop fs df ctype fp y_label gs
        (logger WARNING (GroupColumnNotFound g (name fp)) s))) p = Some c"
      by simp
    from Cons.IH [OF this] Cons.prems(2) show ?thesis by auto
  next
    case present: True
    obtain r s' where gc: "generate_chart fs (groupby_sum df g plot_col_name) g ctype
        (parent fp) (stem (name fp)) y_label s = (r, s')"
      by (cases "generate_chart fs (groupby_sum df g plot_col_name) g ctype
        (parent fp) (stem (name fp)) y_label s")
    show ?thesis
    proof (cases "artifacts s' p = Some c")
      case True
      with gc Cons.prems(2) generate_chart_new_artifact
        [of fs "groupby_sum df g plot_col_name" g ctype "parent fp" "stem (name fp)" y_label s p c]
      show ?thesis using present by auto
    next
      case False
      have "r = None"
        using Cons.prems(1) present gc False by (cases r) auto
      with Cons.prems(1) present gc
      have "artifacts (snd (group_loop fs df ctype fp y_label gs s')) p = Some c"
        by simp
      from Cons.IH [OF this False] show ?thesis by auto
    qed
  qed
qed

lemma process_single_file_new_artifact:
  assumes "artifacts (snd (process_single_file fs fp config s)) p = Some c"
    and "artifacts s p \<noteq> Some c"
  shows "\<exists>df df' y_label target_cols groupby_input ctype g ls.
           read_csv fs fp = Some df \<and> columns config = Some target_cols \<and>
           groupby config = Some groupby_input \<and> chart_type config = Some ctype \<and>
           prepare_columns config target_cols (name fp) df = Inr (df', y_label) \<and>
           g \<in> set (name_list groupby_input) \<and> g \<in> set (df_columns df') \<and>
           p = chart_path (parent fp) (stem (name fp)) g ctype \<and>
           add_data_labels (groupby_sum df' g plot_col_name) = Inr ls \<and>
           c = figure (groupby_sum df' g plot_col_name) ls g ctype (stem (name fp)) y_label"
proof -
  let ?s0 = "logger INFO (ProcessingFile (name fp)) s"
  have s0: "artifacts ?s0 p \<noteq> Some c" using assms(2) by simp
  from assms(1) s0 obtain df target_cols groupby_input ctype df' y_label where
    facts: "read_csv fs fp = Some df" "columns config = Some target_cols"
      "groupby config = Some groupby_input" "chart_type config = Some ctype"
      "prepare_columns config target_cols (name fp) df = Inr (df', y_label)"
    and run: "process_single_file fs fp config s
        = group_loop fs df' ctype fp y_label (name_list groupby_input) ?s0"
    by (auto simp: process_single_file_def Let_def
        split: option.splits if_splits sum.splits prod.splits)
  from assms(1) run have "artifacts (snd (group_loop fs df' ctype fp y_label
      (name_list groupby_input) ?s0)) p = Some c" by simp
  from group_loop_new_artifact [OF this s0] facts show ?thesis by blast
qed

section \<open>Loading the configuration\<close>

text \<open>
  C4 (as amended). A call of \<^verbatim>\<open>load_config\<close> that raises (missing file, undecodable
  JSON, a root that is neither a list nor an object, an empty list) leaves the state as it
  was: \<^verbatim>\<open>config_data\<close> is assigned on success only. So the configuration is empty
  after the raising call exactly when it was empty before it; a configuration loaded by an
  earlier call stays loaded.
\<close>

theorem load_config_raise_keeps_state:
  assumes "fst (load_config fs config_path s) = Some e"
  shows "snd (load_config fs config_path s) = s"
  using assms
  by (auto simp: load_config_def split: config_source.splits sum.splits if_splits)

theorem load_config_raise_keeps_state_witness:
  "fst (load_config disk ''missing.json'' init) = Some (FileNotFoundError ''missing.json'')
   \<and> config_data (snd (load_config disk ''missing.json'' init)) = []"
proof -
  have r: "fst (load_config disk ''missing.json'' init) = Some (FileNotFoundError ''missing.json'')"
    by (simp add: load_config_def disk_def)
  from load_config_raise_keeps_state [OF r] r show ?thesis by (simp add: init_def)
qed

text \<open>
  The claim as first stated (after a raising call no configuration is loaded) fails when
  an earlier call succeeded: the second call raises and the first configuration is still
  in \<^verbatim>\<open>config_data\<close>.
\<close>

theorem load_config_raise_after_load_counterexample:
  "fst (load_config disk ''config.json'' init) = None
   \<and> fst (load_config disk ''missing.json'' (snd (load_config disk ''config.json'' init)))
        = Some (FileNotFoundError ''missing.json'')
   \<and> config_data (snd (load_config disk ''missing.json''
          (snd (load_config disk ''config.json'' init)))) \<noteq> []"
  by (simp add: load_config_def disk_def)

section \<open>Unsupported chart kinds\<close>

text \<open>
  C5. For a chart kind other than \<open>line\<close> and \<open>bar\<close>, a render call raises nothing and
  writes no file: it logs the error and returns the state otherwise unchanged (the figure
  it opened is closed). The loop over the group columns therefore runs to its end: it raises
  nothing, writes nothing, and the log gains one entry per group column, in order: the
  error of the render call for a column of the table, the warning for a column the
  table lacks.
\<close>

theorem unsupported_chart_kind_aborts_only_render:
  assumes "ctype \<noteq> ''line''" and "ctype \<noteq> ''bar''"
  shows "generate_chart fs series x_col ctype dir base y_label s
           = (None, logger ERROR (UnknownChartType ctype) s)
       \<and> artifacts (snd (generate_chart fs series x_col ctype dir base y_label s)) = artifacts s
       \<and> fst (group_loop fs df ctype fp y_label gs s) = None
       \<and> artifacts (snd (group_loop fs df ctype fp y_label gs s)) = artifacts s
       \<and> logged (snd (group_loop fs df ctype fp y_label gs s))
           = logged s @ map (\<lambda>g. if g \<in> set (df_columns df)
                                  then (ERROR, UnknownChartType ctype)
                                  else (WARNING, GroupColumnNotFound g (name fp))) gs"
proof -
  have gc: "\<And>series x_col s. generate_chart fs series x_col ctype dir base y_label s
           = (None, logger ERROR (UnknownChartType ctype) s)" for dir base
    using assms by (rule generate_chart_unknown)
  have loop: "fst (group_loop fs df ctype fp y_label gs s) = None
       \<and> artifacts (snd (group_loop fs df ctype fp y_label gs s)) = artifacts s
       \<and> logged (snd (group_loop fs df ctype fp y_label gs s))
           = logged s @ map (\<lambda>g. if g \<in> set (df_columns df)
                                  then (ERROR, UnknownChartType ctype)
                                  else (WARNING, GroupColumnNotFound g (name fp))) gs"
    by (induction gs arbitrary: s) (simp_all add: gc)
  show ?thesis using gc loop by simp
qed

theorem unsupported_chart_kind_witness:
  "''pie'' \<noteq> ''line'' \<and> ''pie'' \<noteq> ''bar''
   \<and> fst (group_loop disk financials ''pie'' (csv ''test_financials.csv'') ''Amount''
          [''Year'', ''Month'', ''Amount''] init) = None
   \<and> logged (snd (group_loop disk financials ''pie'' (csv ''test_financials.csv'') ''Amount''
          [''Year'', ''Month'', ''Amount''] init))
       = [(ERROR, UnknownChartType ''pie''),
          (WARNING, GroupColumnNotFound ''Month'' ''test_financials.csv''),
          (ERROR, UnknownChartType ''pie'')]"
proof -
  have k: "''pie'' \<noteq> ''line''" "''pie'' \<noteq> ''bar''" by simp_all
  show ?thesis
    using unsupported_chart_kind_aborts_only_render [OF k, where fs = disk and s = init
        and df = financials and fp = "csv ''test_financials.csv''" and y_label = "''Amount''"
        and gs = "[''Year'', ''Month'', ''Amount'']"]
    by (simp add: financials_def frame_def init_def csv_def del: group_loop.simps)
qed

section \<open>A measure the table lacks\<close>

lemma prepare_columns_absent:
  assumes "set (name_list target_cols) \<inter> set (df_columns df) = {}"
  shows "\<exists>w. prepare_columns config target_cols file_name df = Inl (WARNING, w)"
proof (cases target_cols)
  case (Single c)
  with assms show ?thesis by (simp add: prepare_columns_def)
next
  case (Multiple cs)
  with assms have "filter (\<lambda>c. c \<in> set (df_columns df)) cs = []"
    by (auto simp: filter_empty_conv)
  with Multiple show ?thesis by (simp add: prepare_columns_def)
qed

text \<open>
  C6. When the parsed table has none of the columns the descriptor's measure names (the
  single name, or every name of the list), step 1 yields a warning and no table with a
  synthetic column; processing the file raises nothing, writes no artifact and adds to the
  log the line that announces the file and one warning; and the loop over the matched
  files goes on with the files after this one.
\<close>

theorem absent_measure_skips_file:
  assumes "read_csv fs fp = Some df"
    and "columns config = Some target_cols"
    and "set (name_list target_cols) \<inter> set (df_columns df) = {}"
  shows "\<exists>w ev. prepare_columns config target_cols (name fp) df = Inl (WARNING, w)
         \<and> process_single_file fs fp config s
             = (None, logger WARNING ev (logger INFO (ProcessingFile (name fp)) s))
         \<and> artifacts (snd (process_single_file fs fp config s)) = artifacts s
         \<and> (\<not> is_dir fs fp \<longrightarrow>
              files_loop fs config (fp # rest) s
                = files_loop fs config rest
                    (logger WARNING ev (logger INFO (ProcessingFile (name fp)) s)))"
proof -
  from prepare_columns_absent [OF assms(3)] obtain w where
    w: "prepare_columns config target_cols (name fp) df = Inl (WARNING, w)" by blast
  let ?s0 = "logger INFO (ProcessingFile (name fp)) s"
  have "\<exists>ev. process_single_file fs fp config s = (None, logger WARNING ev ?s0)"
    using assms(1,2) w
    by (auto simp: process_single_file_def Let_def split: option.splits)
  then obtain ev where
    run: "process_single_file fs fp config s = (None, logger WARNING ev ?s0)" by blast
  from w run show ?thesis by auto
qed

theorem absent_measure_skips_file_witness:
  "read_csv disk (csv ''multi_col.csv'') = Some multi_col
   \<and> set (name_list (Single ''Amount'')) \<inter> set (df_columns multi_col) = {}
   \<and> files_loop disk (job (Single ''Amount'') (Single ''Year'') ''bar'' None)
        [csv ''multi_col.csv'', csv ''test_financials.csv''] init
      = \<lparr>config_data = [], open_figures = 0,
         artifacts = [csv ''test_financials_Year_bar.png'' \<mapsto>
            figure [(Int64 2023, Fin 300), (Int64 2024, Fin 400)]
              [(Int64 2023, Fin 300, 300), (Int64 2024, Fin 400, 400)]
              ''Year'' ''bar'' ''test_financials'' ''Amount''],
         logged = [(INFO, ProcessingFile ''multi_col.csv''),
                   (WARNING, ColumnNotFound ''multi_col.csv'' ''Amount''),
                   (INFO, ProcessingFile ''test_financials.csv''),
                   (INFO, GeneratedChart (csv ''test_financials_Year_bar.png''))]\<rparr>"
proof -
  have a: "read_csv disk (csv ''multi_col.csv'') = Some multi_col"
    by (simp add: disk_def csv_def)
  have b: "columns (job (Single ''Amount'') (Single ''Year'') ''bar'' None) = Some (Single ''Amount'')"
    by (simp add: job_def)
  have c: "set (name_list (Single ''Amount'')) \<inter> set (df_columns multi_col) = {}"
    by (simp add: multi_col_def frame_def)
  have d: "\<not> is_dir disk (csv ''multi_col.csv'')" by (simp add: disk_def)
  from absent_measure_skips_file [OF a b c, where s = init
      and rest = "[csv ''test_financials.csv'']"] d
  obtain w ev where
    w: "prepare_columns (job (Single ''Amount'') (Single ''Year'') ''bar'' None)
          (Single ''Amount'') (name (csv ''multi_col.csv'')) multi_col = Inl (WARNING, w)"
    and skip: "files_loop disk (job (Single ''Amount'') (Single ''Year'') ''bar'' None)
        [csv ''multi_col.csv'', csv ''test_financials.csv''] init
      = files_loop disk (job (Single ''Amount'') (Single ''Year'') ''bar'' None)
        [csv ''test_financials.csv'']
        (logger WARNING ev (logger INFO (ProcessingFile (name (csv ''multi_col.csv''))) init))"
    and run: "process_single_file disk (csv ''multi_col.csv'')
          (job (Single ''Amount'') (Single ''Year'') ''bar'' None) init
        = (None, logger WARNING ev (logger INFO (ProcessingFile (name (csv ''multi_col.csv''))) init))"
    by blast
  have ev: "ev = ColumnNotFound ''multi_col.csv'' ''Amount''"
    using run
    by (simp add: process_single_file_def prepare_columns_def example_defs logger_def init_def)
  show ?thesis
    unfolding skip ev using a c
    by (simp add: process_single_file_def prepare_columns_def example_defs logger_def init_def
        set_column_def plot_col_name_def get_chart_label_def sum_defs
        generate_chart_def save_chart_def chart_path_def close_fig_def stem_def trunc_def
        Let_def)
qed

section \<open>Grouped sums\<close>


























section \<open>Several measure columns\<close>




section \<open>The label of the y axis\<close>

lemma prepare_columns_label:
  assumes "prepare_columns config target_cols file_name df = Inr (df', y_label)"
  shows "y_label = get_chart_label config
           (join '' + '' (filter (\<lambda>c. c \<in> set (df_columns df)) (name_list target_cols)))"
  using assms
  by (cases target_cols) (auto simp: prepare_columns_def Let_def split: if_splits)

text \<open>
  C10. Every chart that processing a file writes carries one label on its y axis and in
  its legend. When the descriptor has the chart-label key, the label is the value of the key,
  whatever it is: bound to the empty string, the label is the empty string. Only when the
  key is absent is the label the measure name, or the names of the measure list that the
  table has, joined.
\<close>

theorem chart_label_present_is_used:
  assumes "artifacts (snd (process_single_file fs fp config s)) p = Some c"
    and "artifacts s p \<noteq> Some c"
  shows "legend c = ylabel c \<and>
         (case chart_label config of
            Some l \<Rightarrow> ylabel c = l
          | None \<Rightarrow>
              \<exists>df target_cols. read_csv fs fp = Some df \<and> columns config = Some target_cols \<and>
                ylabel c = join '' + ''
                  (filter (\<lambda>c. c \<in> set (df_columns df)) (name_list target_cols)))"
proof -
  from process_single_file_new_artifact [OF assms]
  obtain df df' y_label target_cols ctype g ls where
    df: "read_csv fs fp = Some df" and tc: "columns config = Some target_cols"
    and prep: "prepare_columns config target_cols (name fp) df = Inr (df', y_label)"
    and c: "c = figure (groupby_sum df' g plot_col_name) ls g ctype (stem (name fp)) y_label"
    by blast
  from c have "legend c = ylabel c" "ylabel c = y_label" by (simp_all add: figure_def)
  with prepare_columns_label [OF prep] df tc show ?thesis
    by (auto simp: get_chart_label_def split: option.splits)
qed

lemma financials_empty_label_run:
  "process_single_file disk (csv ''test_financials.csv'')
       (job (Single ''Amount'') (Single ''Year'') ''bar'' (Some [])) init
     = (None, \<lparr>config_data = [], open_figures = 0,
         artifacts = [csv ''test_financials_Year_bar.png'' \<mapsto>
            figure [(Int64 2023, Fin 300), (Int64 2024, Fin 400)]
              [(Int64 2023, Fin 300, 300), (Int64 2024, Fin 400, 400)]
              ''Year'' ''bar'' ''test_financials'' []],
         logged = [(INFO, ProcessingFile ''test_financials.csv''),
                   (INFO, GeneratedChart (csv ''test_financials_Year_bar.png''))]\<rparr>)"
  by (simp add: process_single_file_def prepare_columns_def example_defs logger_def init_def
        set_column_def plot_col_name_def get_chart_label_def sum_defs
        generate_chart_def save_chart_def chart_path_def close_fig_def stem_def trunc_def
        Let_def)

theorem chart_label_present_is_used_witness:
  "chart_label (job (Single ''Amount'') (Single ''Year'') ''bar'' (Some [])) = Some []
   \<and> legend (figure [(Int64 2023, Fin 300), (Int64 2024, Fin 400)]
              [(Int64 2023, Fin 300, 300), (Int64 2024, Fin 400, 400)]
              ''Year'' ''bar'' ''test_financials'' []) = []
   \<and> ylabel (figure [(Int64 2023, Fin 300), (Int64 2024, Fin 400)]
              [(Int64 2023, Fin 300, 300), (Int64 2024, Fin 400, 400)]
              ''Year'' ''bar'' ''test_financials'' []) = []"
proof -
  let ?c = "figure [(Int64 2023, Fin 300), (Int64 2024, Fin 400)]
              [(Int64 2023, Fin 300, 300), (Int64 2024, Fin 400, 400)]
              ''Year'' ''bar'' ''test_financials'' []"
  have a: "artifacts (snd (process_single_file disk (csv ''test_financials.csv'')
       (job (Single ''Amount'') (Single ''Year'') ''bar'' (Some [])) init))
       (csv ''test_financials_Year_bar.png'') = Some ?c"
    by (simp add: financials_empty_label_run)
  have b: "artifacts init (csv ''test_financials_Year_bar.png'') \<noteq> Some ?c"
    by (simp add: init_def)
  have l: "chart_label (job (Single ''Amount'') (Single ''Year'') ''bar'' (Some [])) = Some []"
    by (simp add: job_def)
  from chart_label_present_is_used [OF a b] l show ?thesis by simp
qed

section \<open>Data labels\<close>

lemma add_data_labels_truncate:
  assumes "add_data_labels df = Inr ls"
  shows "list_all2 (\<lambda>(x, y) (x', y', n). x' = x \<and> y' = y \<and> (\<exists>r. y = Fin r \<and> n = trunc r)) df ls"
  using assms
proof (induction df arbitrary: ls)
  case Nil
  then show ?case by simp
next
  case (Cons p ps)
  obtain x y where p: "p = (x, y)" by (cases p)
  from Cons.prems p obtain n ls' where
    n: "py_int y = Inr n" and ls': "add_data_labels ps = Inr ls'" and ls: "ls = (x, y, n) # ls'"
    by (auto split: sum.splits)
  from n have "\<exists>r. y = Fin r \<and> n = trunc r" by (cases y) auto
  with Cons.IH [OF ls'] p ls show ?case by simp
qed

text \<open>
  C9 (as amended). A chart that a render call writes shows the series it was given, and
  the text at each point is the sum value truncated toward zero, as \<^verbatim>\<open>int(y)\<close>
  truncates; every sum of a written chart is finite.
\<close>

theorem data_label_is_truncated_sum:
  assumes "artifacts (snd (generate_chart fs series x_col ctype dir base y_label s)) p = Some c"
    and "artifacts s p \<noteq> Some c"
  shows "points c = series \<and>
         list_all2 (\<lambda>(x, y) (x', y', n). x' = x \<and> y' = y \<and> (\<exists>r. y = Fin r \<and> n = trunc r))
           series (data_labels c)"
proof -
  from generate_chart_new_artifact [OF assms] obtain ls where
    "add_data_labels series = Inr ls" "c = figure series ls x_col ctype base y_label"
    by blast
  with add_data_labels_truncate [of series ls] show ?thesis by (simp add: figure_def)
qed

lemma fractional_bar:
  "generate_chart disk [(Int64 2024, Fin (11 / 4))] ''Year'' ''bar'' ''data'' ''fractional''
       ''Amount'' init
     = (None, logger INFO (GeneratedChart (csv ''fractional_Year_bar.png''))
          (init\<lparr>artifacts := [csv ''fractional_Year_bar.png'' \<mapsto>
             figure [(Int64 2024, Fin (11 / 4))] [(Int64 2024, Fin (11 / 4), 2)]
               ''Year'' ''bar'' ''fractional'' ''Amount'']\<rparr>))"
proof -
  have "add_data_labels [(Int64 2024, Fin (11 / 4))] = Inr [(Int64 2024, Fin (11 / 4), 2)]"
    by (simp add: trunc_def floor_eq_iff)
  from generate_chart_saved [OF _ this, of "''bar''" disk "''data''" "''fractional''" "''Year''"]
  show ?thesis by (simp add: disk_def chart_path_def csv_def init_def)
qed

theorem data_label_is_truncated_sum_witness:
  "points (figure [(Int64 2024, Fin (11 / 4))] [(Int64 2024, Fin (11 / 4), 2)]
               ''Year'' ''bar'' ''fractional'' ''Amount'') = [(Int64 2024, Fin (11 / 4))]
   \<and> list_all2 (\<lambda>(x, y) (x', y', n). x' = x \<and> y' = y \<and> (\<exists>r. y = Fin r \<and> n = trunc r))
        [(Int64 2024, Fin (11 / 4))]
        (data_labels (figure [(Int64 2024, Fin (11 / 4))] [(Int64 2024, Fin (11 / 4), 2)]
               ''Year'' ''bar'' ''fractional'' ''Amount''))"
proof -
  let ?c = "figure [(Int64 2024, Fin (11 / 4))] [(Int64 2024, Fin (11 / 4), 2)]
               ''Year'' ''bar'' ''fractional'' ''Amount''"
  have a: "artifacts (snd (generate_chart disk [(Int64 2024, Fin (11 / 4))] ''Year'' ''bar''
      ''data'' ''fractional'' ''Amount'' init)) (csv ''fractional_Year_bar.png'') = Some ?c"
    by (simp add: fractional_bar)
  have b: "artifacts init (csv ''fractional_Year_bar.png'') \<noteq> Some ?c"
    by (simp add: init_def)
  from data_label_is_truncated_sum [OF a b] show ?thesis .
qed

text \<open>
  The claim as first stated (the text is the sum rounded to the nearest integer) fails for
  the sum \<open>2.75\<close>: the bar is labelled \<open>2\<close>, and the nearest integer is \<open>3\<close>.
\<close>

theorem data_label_not_nearest_counterexample:
  "data_labels (the (artifacts (snd (generate_chart disk [(Int64 2024, Fin (11 / 4))] ''Year''
      ''bar'' ''data'' ''fractional'' ''Amount'' init)) (csv ''fractional_Year_bar.png'')))
     = [(Int64 2024, Fin (11 / 4), 2)]
   \<and> (2 :: int) \<noteq> round (11 / 4 :: rat)"
  by (simp add: fractional_bar figure_def round_def floor_eq_iff)

section \<open>Artifact paths\<close>




























lemma financials_render:
  "generate_chart disk [(Int64 2023, Fin 300), (Int64 2024, Fin 400)] ''Year'' ''bar'' ''data''
       ''test_financials'' ''Total Amount'' init
     = (None, logger INFO (GeneratedChart (csv ''test_financials_Year_bar.png''))
          (init\<lparr>artifacts := [csv ''test_financials_Year_bar.png'' \<mapsto>
             figure [(Int64 2023, Fin 300), (Int64 2024, Fin 400)]
               [(Int64 2023, Fin 300, 300), (Int64 2024, Fin 400, 400)]
               ''Year'' ''bar'' ''test_financials'' ''Total Amount'']\<rparr>))"
proof -
  have "add_data_labels [(Int64 2023, Fin 300), (Int64 2024, Fin 400)]
      = Inr [(Int64 2023, Fin 300, 300), (Int64 2024, Fin 400, 400)]"
    by (simp add: trunc_def)
  from generate_chart_saved [OF _ this, of "''bar''" disk "''data''" "''test_financials''"
      "''Year''"]
  show ?thesis by (simp add: disk_def chart_path_def csv_def init_def)
qed




section \<open>Exceptions of a render call\<close>

lemma group_loop_append:
  "group_loop fs df ctype fp y_label (xs @ ys) s =
     (case group_loop fs df ctype fp y_label xs s of
        (None, s1) \<Rightarrow> group_loop fs df ctype fp y_label ys s1
      | (Some e, s1) \<Rightarrow> (Some e, s1))"
  by (induction xs arbitrary: s) (auto split: prod.splits option.splits)

lemma job_fields:
  "directory (job cols grp ctype lbl) = Some ''data/*.csv''"
  "columns (job cols grp ctype lbl) = Some cols"
  "groupby (job cols grp ctype lbl) = Some grp"
  "chart_type (job cols grp ctype lbl) = Some ctype"
  "chart_label (job cols grp ctype lbl) = lbl"
  by (simp_all add: job_def)

lemma unbounded_prepared:
  "prepare_columns (job cols grp ctype None) (Single ''Amount'') ''unbounded.csv'' unbounded
     = Inr (set_column plot_col_name (\<lambda>r. r ''Amount'') unbounded, ''Amount'')"
  by (simp add: prepare_columns_def job_fields unbounded_def frame_def get_chart_label_def)

lemma unbounded_by_A:
  "groupby_sum (set_column plot_col_name (\<lambda>r. r ''Amount'') unbounded) ''A'' plot_col_name
     = [(Int64 1, PInf), (Int64 2, Fin 10)]"
  by (simp add: sum_defs set_column_def plot_col_name_def unbounded_def row_of_def
      frame_def)

lemma unbounded_by_B:
  "groupby_sum (set_column plot_col_name (\<lambda>r. r ''Amount'') unbounded) ''B'' plot_col_name
     = [(Float64 (Fin 5), Fin 10)]"
  by (simp add: sum_defs set_column_def plot_col_name_def unbounded_def row_of_def
      frame_def)

lemma unbounded_columns:
  "df_columns (set_column plot_col_name (\<lambda>r. r ''Amount'') unbounded)
     = [''A'', ''B'', ''Amount'', ''calculated_value'']"
  by (simp add: set_column_def plot_col_name_def unbounded_def frame_def)

lemma unbounded_render_A:
  "generate_chart disk [(Int64 1, PInf), (Int64 2, Fin 10)] ''A'' ''line'' ''data'' ''unbounded''
       ''Amount'' s
     = (Some OverflowError, s\<lparr>open_figures := Suc (open_figures s)\<rparr>)"
  by (rule generate_chart_raises) simp_all

lemma unbounded_render_B:
  "generate_chart disk [(Float64 (Fin 5), Fin 10)] ''B'' ''line'' ''data'' ''unbounded'' ''Amount'' s
     = (None, logger INFO (GeneratedChart (csv ''unbounded_B_line.png''))
          (s\<lparr>artifacts := (artifacts s)(csv ''unbounded_B_line.png'' \<mapsto>
             figure [(Float64 (Fin 5), Fin 10)] [(Float64 (Fin 5), Fin 10, 10)] ''B'' ''line''
               ''unbounded'' ''Amount'')\<rparr>))"
proof -
  have "add_data_labels [(Float64 (Fin 5), Fin 10)] = Inr [(Float64 (Fin 5), Fin 10, 10)]"
    by (simp add: trunc_def)
  from generate_chart_saved [OF _ this, of "''line''" disk "''data''" "''unbounded''" "''B''"]
  show ?thesis by (simp add: disk_def chart_path_def csv_def)
qed

lemma unbounded_file:
  "read_csv disk (csv ''unbounded.csv'') = Some unbounded"
  "parent (csv ''unbounded.csv'') = ''data''"
  "name (csv ''unbounded.csv'') = ''unbounded.csv''"
  "stem ''unbounded.csv'' = ''unbounded''"
  by (simp_all add: disk_def csv_def stem_def)

lemma unbounded_run_A_B:
  "process_single_file disk (csv ''unbounded.csv'')
       (job (Single ''Amount'') (Multiple [''A'', ''B'']) ''line'' None) init
     = (Some OverflowError,
        \<lparr>config_data = [], open_figures = 1, artifacts = Map.empty,
         logged = [(INFO, ProcessingFile ''unbounded.csv'')]\<rparr>)"
  by (simp add: process_single_file_def Let_def job_fields unbounded_file unbounded_prepared
      unbounded_columns unbounded_by_A unbounded_render_A logger_def init_def)

lemma unbounded_run_B:
  "process_single_file disk (csv ''unbounded.csv'')
       (job (Single ''Amount'') (Single ''B'') ''line'' None) init
     = (None,
        \<lparr>config_data = [], open_figures = 0,
         artifacts = [csv ''unbounded_B_line.png'' \<mapsto>
             figure [(Float64 (Fin 5), Fin 10)] [(Float64 (Fin 5), Fin 10, 10)] ''B'' ''line''
               ''unbounded'' ''Amount''],
         logged = [(INFO, ProcessingFile ''unbounded.csv''),
                   (INFO, GeneratedChart (csv ''unbounded_B_line.png''))]\<rparr>)"
  by (simp add: process_single_file_def Let_def job_fields unbounded_file unbounded_prepared
      unbounded_columns unbounded_by_B unbounded_render_B logger_def init_def)

text \<open>
  C1 (as amended). An exception that the render call of one group column raises is not
  caught at the group column: it ends the loop over the group columns, whatever columns
  remain, and leaves \<^verbatim>\<open>_process_single_file\<close>. It is caught and logged in the loop
  over the files, which goes on with the next file. A render call that returns (also after
  an unsupported chart kind or a failed save, which it handles itself) is followed by the
  remaining group columns.
\<close>

theorem render_exception_ends_file_not_batch:
  "(group_loop fs df ctype fp y_label before s = (None, sa)
      \<and> group_col \<in> set (df_columns df)
      \<and> generate_chart fs (groupby_sum df group_col plot_col_name) group_col ctype
            (parent fp) (stem (name fp)) y_label sa = (Some e, sb)
      \<longrightarrow> group_loop fs df ctype fp y_label (before @ group_col # rest) s = (Some e, sb))
   \<and> (\<not> is_dir fs fp \<and> process_single_file fs fp config s = (Some e, s')
      \<longrightarrow> files_loop fs config (fp # files) s
            = files_loop fs config files (logger ERROR (FailedToProcess fp e) s'))
   \<and> (group_col \<in> set (df_columns df)
      \<and> generate_chart fs (groupby_sum df group_col plot_col_name) group_col ctype
            (parent fp) (stem (name fp)) y_label s = (None, s')
      \<longrightarrow> group_loop fs df ctype fp y_label (group_col # rest) s
            = group_loop fs df ctype fp y_label rest s')"
  by (simp add: group_loop_append)

theorem render_exception_ends_file_not_batch_witness:
  "group_loop disk (set_column plot_col_name (\<lambda>r. r ''Amount'') unbounded) ''line''
        (csv ''unbounded.csv'') ''Amount'' ([''B''] @ ''A'' # [''Amount'']) init
      = (Some OverflowError,
         \<lparr>config_data = [], open_figures = 1,
          artifacts = [csv ''unbounded_B_line.png'' \<mapsto>
             figure [(Float64 (Fin 5), Fin 10)] [(Float64 (Fin 5), Fin 10, 10)] ''B'' ''line''
               ''unbounded'' ''Amount''],
          logged = [(INFO, GeneratedChart (csv ''unbounded_B_line.png''))]\<rparr>)
   \<and> files_loop disk (job (Single ''Amount'') (Multiple [''A'', ''B'']) ''line'' None)
        [csv ''unbounded.csv'', csv ''multi_col.csv''] init
       = \<lparr>config_data = [], open_figures = 1, artifacts = Map.empty,
          logged = [(INFO, ProcessingFile ''unbounded.csv''),
                    (ERROR, FailedToProcess (csv ''unbounded.csv'') OverflowError),
                    (INFO, ProcessingFile ''multi_col.csv''),
                    (WARNING, ColumnNotFound ''multi_col.csv'' ''Amount'')]\<rparr>"
proof -
  let ?J = "job (Single ''Amount'') (Multiple [''A'', ''B'']) ''line'' None"
  let ?T = "set_column plot_col_name (\<lambda>r. r ''Amount'') unbounded"
  let ?fp = "csv ''unbounded.csv''"
  let ?s' = "\<lparr>config_data = [], open_figures = 1, artifacts = Map.empty,
           logged = [(INFO, ProcessingFile ''unbounded.csv'')]\<rparr>"
  let ?sB = "logger INFO (GeneratedChart (csv ''unbounded_B_line.png''))
          (init\<lparr>artifacts := (artifacts init)(csv ''unbounded_B_line.png'' \<mapsto>
             figure [(Float64 (Fin 5), Fin 10)] [(Float64 (Fin 5), Fin 10, 10)] ''B'' ''line''
               ''unbounded'' ''Amount'')\<rparr>)"
  have colA: "''A'' \<in> set (df_columns ?T)" and colB: "''B'' \<in> set (df_columns ?T)"
    by (simp_all add: unbounded_columns)
  have renderB: "generate_chart disk (groupby_sum ?T ''B'' plot_col_name) ''B'' ''line''
      (parent ?fp) (stem (name ?fp)) ''Amount'' init = (None, ?sB)"
    by (simp add: unbounded_file unbounded_by_B unbounded_render_B)
  have renderA: "generate_chart disk (groupby_sum ?T ''A'' plot_col_name) ''A'' ''line''
      (parent ?fp) (stem (name ?fp)) ''Amount'' ?sB
        = (Some OverflowError, ?sB\<lparr>open_figures := Suc (open_figures ?sB)\<rparr>)"
    by (simp add: unbounded_file unbounded_by_A unbounded_render_A)
  from render_exception_ends_file_not_batch [where fs = disk and df = ?T and ctype = "''line''"
      and fp = ?fp and y_label = "''Amount''" and group_col = "''B''" and rest = "[]"
      and s = init and s' = ?sB] colB renderB
  have before: "group_loop disk ?T ''line'' ?fp ''Amount'' [''B''] init = (None, ?sB)"
    by simp
  from render_exception_ends_file_not_batch [where fs = disk and df = ?T and ctype = "''line''"
      and fp = ?fp and y_label = "''Amount''" and before = "[''B'']" and group_col = "''A''"
      and rest = "[''Amount'']" and s = init and sa = ?sB and e = OverflowError
      and sb = "?sB\<lparr>open_figures := Suc (open_figures ?sB)\<rparr>"] before colA renderA
  have groups: "group_loop disk ?T ''line'' ?fp ''Amount'' ([''B''] @ ''A'' # [''Amount'']) init
      = (Some OverflowError, ?sB\<lparr>open_figures := Suc (open_figures ?sB)\<rparr>)"
    by blast
  have d: "\<not> is_dir disk ?fp" by (simp add: disk_def)
  have next_file: "files_loop disk ?J [csv ''multi_col.csv'']
        (logger ERROR (FailedToProcess ?fp OverflowError) ?s')
       = \<lparr>config_data = [], open_figures = 1, artifacts = Map.empty,
          logged = [(INFO, ProcessingFile ''unbounded.csv''),
                    (ERROR, FailedToProcess (csv ''unbounded.csv'') OverflowError),
                    (INFO, ProcessingFile ''multi_col.csv''),
                    (WARNING, ColumnNotFound ''multi_col.csv'' ''Amount'')]\<rparr>"
    by (simp add: process_single_file_def Let_def job_fields prepare_columns_def logger_def
        disk_def csv_def multi_col_def frame_def)
  from render_exception_ends_file_not_batch [where fs = disk and fp = ?fp
      and config = ?J and s = init and e = OverflowError and s' = ?s'
      and files = "[csv ''multi_col.csv'']"] d unbounded_run_A_B
  have "files_loop disk ?J [?fp, csv ''multi_col.csv''] init
      = files_loop disk ?J [csv ''multi_col.csv'']
          (logger ERROR (FailedToProcess ?fp OverflowError) ?s')"
    by blast
  with next_file have files: "files_loop disk ?J [?fp, csv ''multi_col.csv''] init
       = \<lparr>config_data = [], open_figures = 1, artifacts = Map.empty,
          logged = [(INFO, ProcessingFile ''unbounded.csv''),
                    (ERROR, FailedToProcess (csv ''unbounded.csv'') OverflowError),
                    (INFO, ProcessingFile ''multi_col.csv''),
                    (WARNING, ColumnNotFound ''multi_col.csv'' ''Amount'')]\<rparr>"
    by simp
  have "?sB\<lparr>open_figures := Suc (open_figures ?sB)\<rparr>
      = \<lparr>config_data = [], open_figures = 1,
          artifacts = [csv ''unbounded_B_line.png'' \<mapsto>
             figure [(Float64 (Fin 5), Fin 10)] [(Float64 (Fin 5), Fin 10, 10)] ''B'' ''line''
               ''unbounded'' ''Amount''],
          logged = [(INFO, GeneratedChart (csv ''unbounded_B_line.png''))]\<rparr>"
    by (simp add: logger_def init_def)
  with groups files show ?thesis by simp
qed

text \<open>
  The claim as first stated (the remaining group columns of the file are still rendered)
  fails on a table whose amounts are infinite under \<open>A\<close> and finite under \<open>B\<close>: with the
  group columns \<open>A, B\<close> the file's processing raises and writes no chart for \<open>B\<close>, which
  it writes when \<open>B\<close> is the only group column.
\<close>

theorem render_exception_skips_sibling_counterexample:
  "fst (process_single_file disk (csv ''unbounded.csv'')
         (job (Single ''Amount'') (Multiple [''A'', ''B'']) ''line'' None) init)
     = Some OverflowError
   \<and> artifacts (snd (process_single_file disk (csv ''unbounded.csv'')
         (job (Single ''Amount'') (Multiple [''A'', ''B'']) ''line'' None) init))
       (csv ''unbounded_B_line.png'') = None
   \<and> artifacts (snd (process_single_file disk (csv ''unbounded.csv'')
         (job (Single ''Amount'') (Single ''B'') ''line'' None) init))
       (csv ''unbounded_B_line.png'') \<noteq> None"
  unfolding unbounded_run_A_B unbounded_run_B by simp

section \<open>Figures left open\<close>

text \<open>
  A render call that returns has closed its figure; one that raises has not.
\<close>

lemma generate_chart_figures:
  "open_figures (snd (generate_chart fs df x_col ctype dir base y_label s)) =
     (if fst (generate_chart fs df x_col ctype dir base y_label s) = None
      then open_figures s else Suc (open_figures s))"
proof (cases "ctype = ''line'' \<or> ctype = ''bar''")
  case False
  then show ?thesis by (simp add: generate_chart_unknown)
next
  case kind: True
  show ?thesis
  proof (cases "add_data_labels df")
    case (Inl e)
    with kind show ?thesis by (simp add: generate_chart_raises)
  next
    case (Inr ls)
    with kind show ?thesis
      by (cases "save_fails fs (chart_path dir base x_col ctype)")
         (simp_all add: generate_chart_save_fails generate_chart_saved)
  qed
qed

text \<open>
  C8. The claim is that every render call releases its figure on every outcome. On the
  series \<open>[(1, inf), (2, 10)]\<close> and the chart kind \<open>line\<close> the data-label loop raises
  \<^verbatim>\<open>OverflowError\<close> before the \<^verbatim>\<open>try ... finally\<close> that closes the figure: the
  call leaves one more figure open than it found.
\<close>

theorem figure_left_open_when_label_raises:
  "fst (generate_chart disk [(Int64 1, PInf), (Int64 2, Fin 10)] ''A'' ''line'' ''data''
          ''unbounded'' ''Amount'' init) = Some OverflowError
   \<and> open_figures (snd (generate_chart disk [(Int64 1, PInf), (Int64 2, Fin 10)] ''A'' ''line''
          ''data'' ''unbounded'' ''Amount'' init)) = open_figures init + 1"
  by (simp add: unbounded_render_A)

end
